theory Spec2Isabelle
  imports Main "HOL-Library.Word" "HOL-Library.Monad_Syntax"
begin

unbundle bit_operations_syntax

chapter \<open>A model of the Weenix kernel core: virtual memory, descriptors, processes, scheduler\<close>

text \<open>
  Kernel functions are state transformers on a record \<open>kstate\<close> of the kernel's global
  data. A function that can fail to return (a failed \<open>KASSERT\<close>, a \<open>panic\<close>, a
  dereference of a null or dangling pointer, a thread that is never resumed) returns
  \<open>None\<close>; a function that returns a negated error code returns \<open>Inl\<close> of the code.
  Mutexes, interrupt levels, page tables, the TLB, kernel stacks and register contexts are
  not part of the state.
\<close>

section \<open>Basic types and the constants of the missing headers\<close>

type_synonym addr = nat

datatype errno = EINVAL | EBADF | EACCES | ENODEV | ENOMEM | ENOTSUP | ECHILD | EINTR | EMFILE

text \<open>
  The headers (\<open>mm/mm.h\<close>, \<open>mm/mman.h\<close>, \<open>mm/page.h\<close>, \<open>fs/file.h\<close>, \<open>config.h\<close>,
  \<open>proc/proc.h\<close>) are not among the sources, so the constants they define are
  parameters of the model.
\<close>

record kconfig =
  PAGE_SHIFT :: nat
  USER_MEM_LOW :: "64 word"
  USER_MEM_HIGH :: "64 word"
  NFILES :: int
  PROC_MAX_COUNT :: int
  PID_INIT :: int
  MAP_SHARED :: "32 word"
  MAP_PRIVATE :: "32 word"
  MAP_FIXED :: "32 word"
  MAP_ANON :: "32 word"
  PROT_READ :: "32 word"
  PROT_WRITE :: "32 word"
  FMODE_READ :: "32 word"
  FMODE_WRITE :: "32 word"
  FMODE_APPEND :: "32 word"

text \<open>
  Modelled from the spec: the page macros of \<open>mm/page.h\<close> are missing. The spec speaks of
  an address being "page-aligned", of \<open>page_align_down\<close>, of \<open>ceil(len/page)\<close> pages and of
  page numbers: a page holds \<open>2 ^ PAGE_SHIFT\<close> bytes, a page number is an address shifted
  right by \<open>PAGE_SHIFT\<close>.
\<close>

definition PAGE_SIZE :: "kconfig \<Rightarrow> 64 word" where
  "PAGE_SIZE cfg = push_bit (PAGE_SHIFT cfg) 1"

definition PAGE_MASK :: "kconfig \<Rightarrow> 64 word" where
  "PAGE_MASK cfg = push_bit (PAGE_SHIFT cfg) (- 1)"

definition PAGE_ALIGN_UP :: "kconfig \<Rightarrow> 64 word \<Rightarrow> 64 word" where
  "PAGE_ALIGN_UP cfg x = (x + (PAGE_SIZE cfg - 1)) AND PAGE_MASK cfg"

definition PAGE_ALIGNED :: "kconfig \<Rightarrow> 64 word \<Rightarrow> bool" where
  "PAGE_ALIGNED cfg x = (x AND NOT (PAGE_MASK cfg) = 0)"

definition ADDR_TO_PN :: "kconfig \<Rightarrow> 64 word \<Rightarrow> 64 word" where
  "ADDR_TO_PN cfg x = drop_bit (PAGE_SHIFT cfg) x"

definition PN_TO_ADDR :: "kconfig \<Rightarrow> 64 word \<Rightarrow> 64 word" where
  "PN_TO_ADDR cfg x = push_bit (PAGE_SHIFT cfg) x"

section \<open>Kernel objects\<close>

datatype mobj_type = MOBJ_ANON | MOBJ_FILE | MOBJ_SHADOW | MOBJ_BLOCKDEV

text \<open>
  \<open>mobj_t\<close> with the two extra pointers of \<open>mobj_shadow_t\<close> (shadow.c); they are \<open>None\<close>
  in an object that is not a shadow object. \<open>mo_pframes\<close> lists the cached page frames as
  pairs of page number and page contents.
\<close>

record mobj =
  mo_type :: mobj_type
  mo_refcount :: nat
  mo_pframes :: "(64 word \<times> nat) list"
  shadowed :: "addr option"
  bottom_mobj :: "addr option"

text \<open>\<open>vmarea_t\<close>; the list link and the back pointer to the map are the list itself.\<close>

record vmarea =
  vma_start :: "64 word"
  vma_end :: "64 word"
  vma_off :: "64 word"
  vma_prot :: "32 word"
  vma_flags :: "32 word"
  vma_obj :: "addr option"

text \<open>
  A vnode, as far as \<open>do_mmap\<close> and \<open>vmmap_map\<close> look at it: \<open>vn_mmap\<close> is \<open>None\<close> when
  the \<open>mmap\<close> entry of \<open>vn_ops\<close> is null, and otherwise what a call of the file system's
  \<open>mmap\<close> operation gives: an error, or the memory object it stores through its second
  argument.
\<close>

record vnode =
  vn_mmap :: "(errno + addr) option"

record file_t =
  f_refcount :: nat
  f_mode :: "32 word"
  f_pos :: "64 word"
  f_vnode :: addr

datatype proc_state = PROC_RUNNING | PROC_DEAD

record proc =
  p_pid :: int
  p_pproc :: "addr option"
  p_children :: "addr list"
  p_threads :: "addr list"
  p_status :: "64 word"
  p_state :: proc_state
  p_vmmap :: "vmarea list option"
  p_files :: "nat \<Rightarrow> addr option"

datatype kt_state =
  KT_NO_STATE | KT_RUNNABLE | KT_ON_CPU | KT_SLEEP | KT_SLEEP_CANCELLABLE | KT_EXITED

text \<open>
  The queues of the kernel: the run queue \<open>kt_runq\<close>, the wait queue \<open>p_wait\<close> of the
  process at an address, and any other \<open>ktqueue_t\<close>.
\<close>

datatype qid = RUNQ | P_WAIT addr | WQ nat

record kthread =
  kt_state :: kt_state
  kt_cancelled :: nat
  kt_wchan :: "qid option"
  kt_proc :: "addr option"
  kt_retval :: "64 word"
  kt_kstack :: bool

text \<open>
  The kernel state. Objects of the slab allocators live in maps from addresses;
  \<open>kmem_avail\<close> is the number of allocations that will still succeed and \<open>next_addr\<close>
  the address the next allocation returns. A queue is the list of its threads, head
  first; \<open>tq_size\<close> is the length of the list.
\<close>

record kstate =
  kmem_avail :: nat
  next_addr :: addr
  mobjs :: "addr \<rightharpoonup> mobj"
  vnodes :: "addr \<rightharpoonup> vnode"
  files :: "addr \<rightharpoonup> file_t"
  procs :: "addr \<rightharpoonup> proc"
  proc_list :: "addr list"
  next_pid :: int
  proc_initproc :: "addr option"
  idleproc :: addr
  curproc :: addr
  threads :: "addr \<rightharpoonup> kthread"
  curthr :: "addr option"
  queues :: "qid \<Rightarrow> addr list"

section \<open>Allocation and reference counts\<close>

text \<open>
  Modelled from the spec: the slab allocator (\<open>mm/slab.c\<close>) is missing; the spec gives
  its interface, "per-type \<open>create(name, size)\<close>, \<open>alloc\<close>, \<open>free\<close>", and names "out of
  memory" as a recoverable error. \<open>slab_obj_alloc\<close> returns a fresh address, or null when
  no memory is left.
\<close>

definition slab_obj_alloc :: "kstate \<Rightarrow> addr option \<times> kstate" where
  "slab_obj_alloc st =
     (if kmem_avail st = 0 then (None, st)
      else (Some (next_addr st),
            st\<lparr>kmem_avail := kmem_avail st - 1, next_addr := Suc (next_addr st)\<rparr>))"

definition slab_obj_free :: "kstate \<Rightarrow> kstate" where
  "slab_obj_free st = st\<lparr>kmem_avail := Suc (kmem_avail st)\<rparr>"

text \<open>
  Modelled from the spec: \<open>mobj_ref\<close> and \<open>mobj_put\<close> (\<open>mm/mobj.c\<close>) are missing. The
  spec: memory objects are "reference-counted"; "a vmarea holds one refcount on its mobj.
  A shadow mobj holds one refcount on \<open>shadowed\<close> and one on \<open>bottom\<close>"; a put
  "decrements and may destroy". \<open>mobj_put\<close> on a count of zero is a failed assertion.
  When the count reaches zero the destructor of the object's type runs: for a shadow
  object that is \<open>shadow_destructor\<close> of shadow.c (put \<open>shadowed\<close>, put \<open>bottom_mobj\<close>,
  free the object); for the other types the object and its page frames are freed.
\<close>

definition mobj_ref :: "addr \<Rightarrow> kstate \<Rightarrow> kstate option" where
  "mobj_ref a st =
     (case mobjs st a of
        None \<Rightarrow> None
      | Some ob \<Rightarrow> Some (st\<lparr>mobjs := (mobjs st)(a \<mapsto> ob\<lparr>mo_refcount := Suc (mo_refcount ob)\<rparr>)\<rparr>))"

partial_function (option) mobj_put :: "addr \<Rightarrow> kstate \<Rightarrow> kstate option" where
  "mobj_put a st =
     (case mobjs st a of
        None \<Rightarrow> None
      | Some ob \<Rightarrow>
          if mo_refcount ob = 0 then None
          else if mo_refcount ob - 1 \<noteq> 0 then
            Some (st\<lparr>mobjs := (mobjs st)(a \<mapsto> ob\<lparr>mo_refcount := mo_refcount ob - 1\<rparr>)\<rparr>)
          else if mo_type ob = MOBJ_SHADOW then
            do {
              st1 \<leftarrow> (case shadowed ob of
                       None \<Rightarrow> Some (st\<lparr>mobjs := (mobjs st)(a \<mapsto> ob\<lparr>mo_refcount := 0\<rparr>)\<rparr>)
                     | Some s \<Rightarrow> mobj_put s (st\<lparr>mobjs := (mobjs st)(a \<mapsto> ob\<lparr>mo_refcount := 0\<rparr>)\<rparr>));
              st2 \<leftarrow> (case bottom_mobj ob of None \<Rightarrow> Some st1 | Some b \<Rightarrow> mobj_put b st1);
              Some (slab_obj_free (st2\<lparr>mobjs := (mobjs st2)(a := None)\<rparr>))
            }
          else Some (slab_obj_free (st\<lparr>mobjs := (mobjs st)(a := None)\<rparr>)))"

declare mobj_put.simps [code]

section \<open>Shadow objects (shadow.c) and anonymous objects\<close>

text \<open>
  \<open>anon_create\<close>: a new object of type \<open>MOBJ_ANON\<close>. \<open>mobj_init\<close> is missing; as in
  \<open>shadow_create\<close>, a new object has reference count 1 and no page frames.
\<close>

definition anon_create :: "kstate \<Rightarrow> addr option \<times> kstate" where
  "anon_create st =
     (case slab_obj_alloc st of
        (None, st1) \<Rightarrow> (None, st1)
      | (Some a, st1) \<Rightarrow>
          (Some a, st1\<lparr>mobjs := (mobjs st1)(a \<mapsto>
             \<lparr>mo_type = MOBJ_ANON, mo_refcount = 1, mo_pframes = [],
              shadowed = None, bottom_mobj = None\<rparr>)\<rparr>))"

text \<open>
  \<open>shadow_create(shadowed)\<close>: the result is \<open>Some (None, _)\<close> when the allocation fails
  (the function returns null) and \<open>Some (Some a, _)\<close> for the new shadow object at \<open>a\<close>.
\<close>

definition shadow_create :: "addr option \<Rightarrow> kstate \<Rightarrow> (addr option \<times> kstate) option" where
  "shadow_create shadowed_arg st =
     (case shadowed_arg of
        None \<Rightarrow> None
      | Some sh \<Rightarrow>
          (case slab_obj_alloc st of
             (None, st1) \<Rightarrow> Some (None, st1)
           | (Some a, st1) \<Rightarrow>
               do {
                 st2 \<leftarrow> mobj_ref sh (st1\<lparr>mobjs := (mobjs st1)(a \<mapsto>
                          \<lparr>mo_type = MOBJ_SHADOW, mo_refcount = 1, mo_pframes = [],
                           shadowed = Some sh, bottom_mobj = None\<rparr>)\<rparr>);
                 shob \<leftarrow> mobjs st2 sh;
                 bot \<leftarrow> (if mo_type shob = MOBJ_SHADOW then bottom_mobj shob else Some sh);
                 new \<leftarrow> mobjs st2 a;
                 st3 \<leftarrow> mobj_ref bot (st2\<lparr>mobjs := (mobjs st2)(a \<mapsto> new\<lparr>bottom_mobj := Some bot\<rparr>)\<rparr>);
                 Some (Some a, st3)
               }))"

text \<open>
  \<open>shadow_collapse(o)\<close>. The source moves no page frame: between the reference count
  check and the update of \<open>shadowed\<close> it only has a comment.
\<close>

definition shadow_collapse :: "addr \<Rightarrow> kstate \<Rightarrow> kstate option" where
  "shadow_collapse a st =
     do {
       ob \<leftarrow> mobjs st a;
       sh \<leftarrow> (if mo_type ob = MOBJ_SHADOW then shadowed ob else None);
       shob \<leftarrow> mobjs st sh;
       if mo_type shob \<noteq> MOBJ_SHADOW then Some st
       else if mo_refcount shob > 1 then Some st
       else do {
         nxt \<leftarrow> shadowed shob;
         st1 \<leftarrow> mobj_ref nxt (st\<lparr>mobjs := (mobjs st)(a \<mapsto> ob\<lparr>shadowed := shadowed shob\<rparr>)\<rparr>);
         mobj_put sh st1
       }
     }"

section \<open>Address spaces (vmmap.c)\<close>

text \<open>
  A \<open>vmmap_t\<close> is the list of its vmareas in list order. \<open>list_iterate\<close> visits the
  elements in list order and reads the successor before the body runs, so the body may
  unlink the current element.
\<close>

datatype vmmap_dir = VMMAP_DIR_LOHI | VMMAP_DIR_HILO

definition vmarea_alloc :: "kstate \<Rightarrow> vmarea option \<times> kstate" where
  "vmarea_alloc st =
     (case slab_obj_alloc st of
        (None, st1) \<Rightarrow> (None, st1)
      | (Some a, st1) \<Rightarrow>
          (Some \<lparr>vma_start = 0, vma_end = 0, vma_off = 0, vma_prot = 0, vma_flags = 0,
                 vma_obj = None\<rparr>, st1))"

definition vmarea_free :: "vmarea \<Rightarrow> kstate \<Rightarrow> kstate option" where
  "vmarea_free vma st =
     do {
       st1 \<leftarrow> (case vma_obj vma of None \<Rightarrow> Some st | Some a \<Rightarrow> mobj_put a st);
       Some (slab_obj_free st1)
     }"

definition vmmap_create :: "kstate \<Rightarrow> vmarea list option \<times> kstate" where
  "vmmap_create st =
     (case slab_obj_alloc st of
        (None, st1) \<Rightarrow> (None, st1)
      | (Some a, st1) \<Rightarrow> (Some [], st1))"

fun vmarea_free_all :: "vmarea list \<Rightarrow> kstate \<Rightarrow> kstate option" where
  "vmarea_free_all [] st = Some st"
| "vmarea_free_all (vma # rest) st = do { st1 \<leftarrow> vmarea_free vma st; vmarea_free_all rest st1 }"

definition vmmap_destroy :: "vmarea list option \<Rightarrow> kstate \<Rightarrow> kstate option" where
  "vmmap_destroy mapp st =
     (case mapp of
        None \<Rightarrow> Some st
      | Some vmm_list \<Rightarrow> do { st1 \<leftarrow> vmarea_free_all vmm_list st; Some (slab_obj_free st1) })"

text \<open>
  The loop of \<open>vmmap_insert\<close>: before the first vmarea that starts above the new one, at
  the tail when there is none (and at the head of an empty list).
\<close>

fun vmmap_insert_iter :: "vmarea \<Rightarrow> vmarea list \<Rightarrow> vmarea list" where
  "vmmap_insert_iter new_vma [] = [new_vma]"
| "vmmap_insert_iter new_vma (vma # rest) =
     (if vma_start new_vma < vma_start vma then new_vma # vma # rest
      else vma # vmmap_insert_iter new_vma rest)"

definition vmmap_insert :: "kconfig \<Rightarrow> vmarea list \<Rightarrow> vmarea \<Rightarrow> vmarea list option" where
  "vmmap_insert cfg vmm_list new_vma =
     (if vma_start new_vma < vma_end new_vma
         \<and> vma_start new_vma \<ge> ADDR_TO_PN cfg (USER_MEM_LOW cfg)
         \<and> vma_end new_vma \<le> ADDR_TO_PN cfg (USER_MEM_HIGH cfg)
      then Some (vmmap_insert_iter new_vma vmm_list)
      else None)"

text \<open>
  The two gap loops of \<open>vmmap_find_range\<close>: \<open>Inl\<close> is the value the loop returns from
  the function, \<open>Inr\<close> the value of \<open>prev_vma\<close> when the loop ends. The differences
  are those of \<open>size_t\<close>: they wrap around.
\<close>

fun find_range_hilo_iter ::
  "64 word \<Rightarrow> vmarea option \<Rightarrow> vmarea list \<Rightarrow> 64 word + vmarea option" where
  "find_range_hilo_iter npages prev_vma [] = Inr prev_vma"
| "find_range_hilo_iter npages prev_vma (vma # rest) =
     (case prev_vma of
        None \<Rightarrow> find_range_hilo_iter npages (Some vma) rest
      | Some p \<Rightarrow>
          if vma_start vma - vma_end p \<ge> npages then Inl (vma_start vma - npages)
          else find_range_hilo_iter npages (Some vma) rest)"

fun find_range_lohi_iter ::
  "64 word \<Rightarrow> vmarea option \<Rightarrow> vmarea list \<Rightarrow> 64 word + vmarea option" where
  "find_range_lohi_iter npages prev_vma [] = Inr prev_vma"
| "find_range_lohi_iter npages prev_vma (vma # rest) =
     (case prev_vma of
        None \<Rightarrow> find_range_lohi_iter npages (Some vma) rest
      | Some p \<Rightarrow>
          if vma_start vma - vma_end p \<ge> npages then Inl (vma_end p)
          else find_range_lohi_iter npages (Some vma) rest)"

text \<open>\<open>vmmap_find_range\<close>; the result is the \<open>ssize_t\<close> it returns, \<open>- 1\<close> for failure.\<close>

definition vmmap_find_range :: "kconfig \<Rightarrow> vmarea list \<Rightarrow> 64 word \<Rightarrow> vmmap_dir \<Rightarrow> 64 word" where
  "vmmap_find_range cfg vmm_list npages dir =
     (if npages = 0 then - 1
      else case vmm_list of
        [] \<Rightarrow>
          (if dir = VMMAP_DIR_HILO then ADDR_TO_PN cfg (USER_MEM_HIGH cfg) - npages
           else ADDR_TO_PN cfg (USER_MEM_LOW cfg))
      | vma # rest \<Rightarrow>
          if dir = VMMAP_DIR_HILO then
            (let high_start = ADDR_TO_PN cfg (USER_MEM_HIGH cfg) - npages in
             if vma_start vma > high_start then high_start
             else if vma_start vma \<ge> npages then vma_start vma - npages
             else case find_range_hilo_iter npages None vmm_list of
                    Inl r \<Rightarrow> r
                  | Inr None \<Rightarrow> - 1
                  | Inr (Some p) \<Rightarrow>
                      if ADDR_TO_PN cfg (USER_MEM_HIGH cfg) - vma_end p \<ge> npages
                      then ADDR_TO_PN cfg (USER_MEM_HIGH cfg) - npages
                      else - 1)
          else
            (let low_start = ADDR_TO_PN cfg (USER_MEM_LOW cfg) in
             if vma_start vma \<ge> low_start + npages then low_start
             else case find_range_lohi_iter npages None vmm_list of
                    Inl r \<Rightarrow> r
                  | Inr None \<Rightarrow> - 1
                  | Inr (Some p) \<Rightarrow>
                      if ADDR_TO_PN cfg (USER_MEM_HIGH cfg) - vma_end p \<ge> npages
                      then vma_end p
                      else - 1))"

definition vmmap_lookup :: "vmarea list \<Rightarrow> 64 word \<Rightarrow> vmarea option" where
  "vmmap_lookup vmm_list vfn =
     find (\<lambda>vma. vfn \<ge> vma_start vma \<and> vfn < vma_end vma) vmm_list"

text \<open>
  \<open>vmmap_clone\<close>: the result is \<open>Some (None, _)\<close> when an allocation fails (the function
  returns null).
\<close>

fun vmmap_clone_iter ::
  "kconfig \<Rightarrow> vmarea list \<Rightarrow> vmarea list \<Rightarrow> kstate \<Rightarrow> (vmarea list option \<times> kstate) option" where
  "vmmap_clone_iter cfg [] new_map st = Some (Some new_map, st)"
| "vmmap_clone_iter cfg (vma # rest) new_map st =
     (case vmarea_alloc st of
        (None, st1) \<Rightarrow> do { st2 \<leftarrow> vmmap_destroy (Some new_map) st1; Some (None, st2) }
      | (Some z, st1) \<Rightarrow>
          do {
            st2 \<leftarrow> (case vma_obj vma of None \<Rightarrow> Some st1 | Some a \<Rightarrow> mobj_ref a st1);
            new_map' \<leftarrow> vmmap_insert cfg new_map vma;
            vmmap_clone_iter cfg rest new_map' st2
          })"

definition vmmap_clone ::
  "kconfig \<Rightarrow> vmarea list \<Rightarrow> kstate \<Rightarrow> (vmarea list option \<times> kstate) option" where
  "vmmap_clone cfg vmm_list st =
     (case vmmap_create st of
        (None, st1) \<Rightarrow> Some (None, st1)
      | (Some new_map, st1) \<Rightarrow> vmmap_clone_iter cfg vmm_list new_map st1)"

text \<open>
  \<open>vmmap_map\<close>: the result holds the return value (\<open>Inr\<close> the vmarea stored through
  \<open>new_vma\<close> on success), the map and the kernel state afterwards.
\<close>

definition vmmap_map ::
  "kconfig \<Rightarrow> vmarea list \<Rightarrow> addr option \<Rightarrow> 64 word \<Rightarrow> 64 word \<Rightarrow> 32 word \<Rightarrow> 32 word \<Rightarrow> 64 word
     \<Rightarrow> vmmap_dir \<Rightarrow> kstate \<Rightarrow> ((errno + vmarea) \<times> vmarea list \<times> kstate) option" where
  "vmmap_map cfg vmm_list file_vn lopage npages prot flags off dir st =
     (if npages = 0 then Some (Inl EINVAL, vmm_list, st)
      else
        let start_vfn = vmmap_find_range cfg vmm_list npages dir in
        if sint start_vfn < 0 then Some (Inl ENOMEM, vmm_list, st)
        else case vmarea_alloc st of
          (None, st1) \<Rightarrow> Some (Inl ENOMEM, vmm_list, st1)
        | (Some z, st1) \<Rightarrow>
            let vma = z\<lparr>vma_start := start_vfn, vma_end := start_vfn + npages,
                        vma_off := ADDR_TO_PN cfg off, vma_prot := prot, vma_flags := flags\<rparr>
            in
            if flags AND MAP_ANON cfg \<noteq> 0 then
              (case anon_create st1 of
                 (None, st2) \<Rightarrow> do { st3 \<leftarrow> vmarea_free vma st2; Some (Inl ENOMEM, vmm_list, st3) }
               | (Some a, st2) \<Rightarrow>
                   do {
                     vmm_list' \<leftarrow> vmmap_insert cfg vmm_list (vma\<lparr>vma_obj := Some a\<rparr>);
                     Some (Inr (vma\<lparr>vma_obj := Some a\<rparr>), vmm_list', st2)
                   })
            else case file_vn of
              Some vn \<Rightarrow>
                do {
                  v \<leftarrow> vnodes st1 vn;
                  case vn_mmap v of
                    None \<Rightarrow> do { st2 \<leftarrow> vmarea_free vma st1; Some (Inl ENODEV, vmm_list, st2) }
                  | Some (Inl e) \<Rightarrow> do { st2 \<leftarrow> vmarea_free vma st1; Some (Inl e, vmm_list, st2) }
                  | Some (Inr a) \<Rightarrow>
                      do {
                        vmm_list' \<leftarrow> vmmap_insert cfg vmm_list (vma\<lparr>vma_obj := Some a\<rparr>);
                        Some (Inr (vma\<lparr>vma_obj := Some a\<rparr>), vmm_list', st1)
                      }
                }
            | None \<Rightarrow> do { st2 \<leftarrow> vmarea_free vma st1; Some (Inl EINVAL, vmm_list, st2) })"

text \<open>
  The loop of \<open>vmmap_remove\<close>. In the first overlap case the new vmarea \<open>high_vma\<close> is
  linked with \<open>list_insert_before(&vma->vma_plink, &high_vma->vma_plink)\<close>, the call
  \<open>vmmap_insert\<close> uses to put a vmarea before another one: \<open>high_vma\<close> comes before
  \<open>vma\<close> in the list.
\<close>

fun vmmap_remove_iter ::
  "64 word \<Rightarrow> 64 word \<Rightarrow> vmarea list \<Rightarrow> kstate \<Rightarrow> (vmarea list \<times> kstate) option" where
  "vmmap_remove_iter lopage hipage [] st = Some ([], st)"
| "vmmap_remove_iter lopage hipage (vma # rest) st =
     (if vma_end vma \<le> lopage \<or> vma_start vma \<ge> hipage then
        do {
          (rest', st') \<leftarrow> vmmap_remove_iter lopage hipage rest st;
          Some (vma # rest', st')
        }
      else if vma_start vma < lopage \<and> vma_end vma > hipage then
        (case vmarea_alloc st of
           (None, st1) \<Rightarrow> None
         | (Some z, st1) \<Rightarrow>
             do {
               (rest', st') \<leftarrow> vmmap_remove_iter lopage hipage rest st1;
               Some (vma\<lparr>vma_start := hipage,
                          vma_off := vma_off vma + (hipage - vma_start vma)\<rparr>
                     # vma\<lparr>vma_end := lopage\<rparr> # rest', st')
             })
      else if vma_start vma < lopage then
        do {
          (rest', st') \<leftarrow> vmmap_remove_iter lopage hipage rest st;
          Some (vma\<lparr>vma_end := lopage\<rparr> # rest', st')
        }
      else if vma_end vma > hipage then
        do {
          (rest', st') \<leftarrow> vmmap_remove_iter lopage hipage rest st;
          Some (vma\<lparr>vma_off := vma_off vma + (lopage - vma_start vma),
                     vma_start := lopage, vma_end := hipage\<rparr> # rest', st')
        }
      else
        do {
          st1 \<leftarrow> vmarea_free vma st;
          vmmap_remove_iter lopage hipage rest st1
        })"

definition vmmap_remove ::
  "vmarea list \<Rightarrow> 64 word \<Rightarrow> 64 word \<Rightarrow> kstate \<Rightarrow> (vmarea list \<times> kstate) option" where
  "vmmap_remove vmm_list lopage npages st =
     (if npages = 0 then Some (vmm_list, st)
      else vmmap_remove_iter lopage (lopage + npages) vmm_list st)"

section \<open>Open files and the descriptor table (fs/open.c)\<close>

text \<open>
  Modelled from the spec: \<open>fref\<close>, \<open>fput\<close> and \<open>fget\<close> (\<open>fs/file.c\<close>) are missing. The
  spec: an open file is a "refcounted triple of (vnode-reference, mode bits, byte
  position)"; close "releases fd slot and puts the open-file reference"; the descriptor
  table is a "fixed-size array of optional open-file references per process". \<open>fref\<close>
  adds a reference; \<open>fput\<close> drops one and frees the open file with the last one;
  \<open>fget\<close> returns the open file of a descriptor of the current process with a new
  reference, or null. The reference an open file holds on its vnode is not modelled.
\<close>

definition fref :: "addr \<Rightarrow> kstate \<Rightarrow> kstate option" where
  "fref f st =
     (case files st f of
        None \<Rightarrow> None
      | Some fl \<Rightarrow> Some (st\<lparr>files := (files st)(f \<mapsto> fl\<lparr>f_refcount := Suc (f_refcount fl)\<rparr>)\<rparr>))"

definition fput :: "addr \<Rightarrow> kstate \<Rightarrow> kstate option" where
  "fput f st =
     (case files st f of
        None \<Rightarrow> None
      | Some fl \<Rightarrow>
          if f_refcount fl = 0 then None
          else if f_refcount fl - 1 \<noteq> 0 then
            Some (st\<lparr>files := (files st)(f \<mapsto> fl\<lparr>f_refcount := f_refcount fl - 1\<rparr>)\<rparr>)
          else Some (slab_obj_free (st\<lparr>files := (files st)(f := None)\<rparr>)))"

definition fget :: "kconfig \<Rightarrow> int \<Rightarrow> kstate \<Rightarrow> (addr option \<times> kstate) option" where
  "fget cfg fd st =
     (if fd < 0 \<or> fd \<ge> NFILES cfg then Some (None, st)
      else do {
        p \<leftarrow> procs st (curproc st);
        case p_files p (nat fd) of
          None \<Rightarrow> Some (None, st)
        | Some f \<Rightarrow> do { st1 \<leftarrow> fref f st; Some (Some f, st1) }
      })"

definition do_close :: "kconfig \<Rightarrow> int \<Rightarrow> kstate \<Rightarrow> ((errno + int) \<times> kstate) option" where
  "do_close cfg fd st =
     (if fd < 0 \<or> fd \<ge> NFILES cfg then Some (Inl EBADF, st)
      else do {
        p \<leftarrow> procs st (curproc st);
        case p_files p (nat fd) of
          None \<Rightarrow> Some (Inl EBADF, st)
        | Some file_obj \<Rightarrow>
            do {
              st1 \<leftarrow> fput file_obj
                (st\<lparr>procs := (procs st)(curproc st \<mapsto> p\<lparr>p_files := (p_files p)(nat fd := None)\<rparr>)\<rparr>);
              Some (Inr 0, st1)
            }
      })"

definition do_dup2 :: "kconfig \<Rightarrow> int \<Rightarrow> int \<Rightarrow> kstate \<Rightarrow> ((errno + int) \<times> kstate) option" where
  "do_dup2 cfg ofd nfd st =
     (if ofd < 0 \<or> ofd \<ge> NFILES cfg then Some (Inl EBADF, st)
      else if nfd < 0 \<or> nfd \<ge> NFILES cfg then Some (Inl EBADF, st)
      else do {
        p \<leftarrow> procs st (curproc st);
        case p_files p (nat ofd) of
          None \<Rightarrow> Some (Inl EBADF, st)
        | Some original_file \<Rightarrow>
            if ofd = nfd then Some (Inr nfd, st)
            else do {
              st1 \<leftarrow> (if p_files p (nat nfd) \<noteq> None
                      then map_option snd (do_close cfg nfd st) else Some st);
              st2 \<leftarrow> fref original_file st1;
              p2 \<leftarrow> procs st2 (curproc st2);
              Some (Inr nfd,
                    st2\<lparr>procs := (procs st2)(curproc st2 \<mapsto>
                           p2\<lparr>p_files := (p_files p2)(nat nfd \<mapsto> original_file)\<rparr>)\<rparr>)
            }
      })"

section \<open>mmap (vm/mmap.c)\<close>

text \<open>
  \<open>do_mmap\<close>. \<open>len\<close> is a \<open>size_t\<close>, so \<open>len <= 0\<close> is \<open>len = 0\<close>; \<open>off\<close> is a signed
  \<open>off_t\<close>. The flag \<open>ret_given\<close> says whether \<open>ret\<close> is non-null; on success the result is
  \<open>Inr\<close> of the address stored through \<open>ret\<close>, if any. The map of the current process is
  updated in place by \<open>vmmap_map\<close>; the model writes the new list back.
\<close>

definition mmap_finish ::
  "kconfig \<Rightarrow> bool \<Rightarrow> proc \<Rightarrow> (errno + vmarea) \<times> vmarea list \<times> kstate
     \<Rightarrow> (errno + 64 word option) \<times> kstate" where
  "mmap_finish cfg ret_given p res =
     (case res of (r, vmm_list', st1) \<Rightarrow>
        (case r of
           Inl e \<Rightarrow> Inl e
         | Inr new_vma \<Rightarrow>
             Inr (if ret_given then Some (PN_TO_ADDR cfg (vma_start new_vma)) else None),
         st1\<lparr>procs := (procs st1)(curproc st1 \<mapsto> p\<lparr>p_vmmap := Some vmm_list'\<rparr>)\<rparr>))"

definition do_mmap ::
  "kconfig \<Rightarrow> 64 word \<Rightarrow> 64 word \<Rightarrow> 32 word \<Rightarrow> 32 word \<Rightarrow> int \<Rightarrow> 64 word \<Rightarrow> bool \<Rightarrow> kstate
     \<Rightarrow> ((errno + 64 word option) \<times> kstate) option" where
  "do_mmap cfg addr len prot flags fd off ret_given st =
     (if len = 0 \<or> sint off < 0 then Some (Inl EINVAL, st)
      else if flags AND MAP_PRIVATE cfg = 0 \<and> flags AND MAP_SHARED cfg = 0 then Some (Inl EINVAL, st)
      else if flags AND MAP_FIXED cfg \<noteq> 0 \<and> \<not> PAGE_ALIGNED cfg addr then Some (Inl EINVAL, st)
      else if flags AND MAP_FIXED cfg \<noteq> 0 \<and> (addr < USER_MEM_LOW cfg \<or> addr \<ge> USER_MEM_HIGH cfg)
        then Some (Inl EINVAL, st)
      else if \<not> PAGE_ALIGNED cfg off then Some (Inl EINVAL, st)
      else
        let page_len = PAGE_ALIGN_UP cfg len; npages = ADDR_TO_PN cfg page_len in
        if flags AND MAP_ANON cfg \<noteq> 0 then
          (if fd \<noteq> - 1 then Some (Inl EINVAL, st)
           else do {
             p \<leftarrow> procs st (curproc st);
             vmm_list \<leftarrow> p_vmmap p;
             res \<leftarrow> vmmap_map cfg vmm_list None 0 npages prot flags off VMMAP_DIR_HILO st;
             Some (mmap_finish cfg ret_given p res)
           })
        else if fd < 0 \<or> fd \<ge> NFILES cfg then Some (Inl EBADF, st)
        else do {
          (fo, st1) \<leftarrow> fget cfg fd st;
          case fo of
            None \<Rightarrow> Some (Inl EBADF, st1)
          | Some f \<Rightarrow>
              do {
                fl \<leftarrow> files st1 f;
                if prot AND PROT_READ cfg \<noteq> 0 \<and> f_mode fl AND FMODE_READ cfg = 0 then
                  do { st2 \<leftarrow> fput f st1; Some (Inl EACCES, st2) }
                else if prot AND PROT_WRITE cfg \<noteq> 0 \<and> flags AND MAP_SHARED cfg \<noteq> 0
                        \<and> f_mode fl AND FMODE_WRITE cfg = 0 then
                  do { st2 \<leftarrow> fput f st1; Some (Inl EACCES, st2) }
                else if prot AND PROT_WRITE cfg \<noteq> 0 \<and> f_mode fl AND FMODE_APPEND cfg \<noteq> 0 then
                  do { st2 \<leftarrow> fput f st1; Some (Inl EACCES, st2) }
                else do {
                  v \<leftarrow> vnodes st1 (f_vnode fl);
                  if vn_mmap v = None then do { st2 \<leftarrow> fput f st1; Some (Inl ENODEV, st2) }
                  else do {
                    p \<leftarrow> procs st1 (curproc st1);
                    vmm_list \<leftarrow> p_vmmap p;
                    (r, vmm_list', st2) \<leftarrow>
                      vmmap_map cfg vmm_list (Some (f_vnode fl)) (ADDR_TO_PN cfg off) npages
                        prot flags off VMMAP_DIR_HILO st1;
                    st3 \<leftarrow> fput f st2;
                    Some (mmap_finish cfg ret_given p (r, vmm_list', st3))
                  }
                }
              }
        })"

section \<open>Scheduler (proc/sched.c)\<close>

text \<open>
  \<open>ktqueue_enqueue\<close> adds at the head of the list and \<open>ktqueue_dequeue\<close> takes from its
  tail. A thread is linked into the queue \<open>kt_wchan\<close> names, so the assertion of
  \<open>ktqueue_remove\<close> that the thread is linked is that it is on the queue it is removed
  from.
\<close>

definition ktqueue_enqueue :: "qid \<Rightarrow> addr \<Rightarrow> kstate \<Rightarrow> kstate option" where
  "ktqueue_enqueue q thr st =
     do {
       th \<leftarrow> threads st thr;
       if kt_wchan th \<noteq> None then None
       else Some (st\<lparr>queues := (queues st)(q := thr # queues st q),
                     threads := (threads st)(thr \<mapsto> th\<lparr>kt_wchan := Some q\<rparr>)\<rparr>)
     }"



definition sched_make_runnable :: "addr \<Rightarrow> kstate \<Rightarrow> kstate option" where
  "sched_make_runnable thr st =
     (if curthr st = Some thr then None
      else do {
        th \<leftarrow> threads st thr;
        ktqueue_enqueue RUNQ thr (st\<lparr>threads := (threads st)(thr \<mapsto> th\<lparr>kt_state := KT_RUNNABLE\<rparr>)\<rparr>)
      })"










section \<open>Process exit (proc/proc.c)\<close>







section \<open>What runs while a thread is off the CPU\<close>







section \<open>Threads (proc/kthread.c)\<close>

text \<open>
  \<open>kthread_clone\<close> is \<open>NOT_YET_IMPLEMENTED\<close> in the source and returns null.
\<close>

definition kthread_clone :: "addr option \<Rightarrow> kstate \<Rightarrow> (addr option \<times> kstate) option" where
  "kthread_clone thr st = Some (None, st)"

text \<open>
  \<open>kthread_destroy\<close>: the thread is unlinked from the thread list of its process and
  freed; the pages of its stack are not counted.
\<close>

definition kthread_destroy :: "addr \<Rightarrow> kstate \<Rightarrow> kstate option" where
  "kthread_destroy thr st =
     (if curthr st = Some thr then None
      else do {
        th \<leftarrow> threads st thr;
        if \<not> kt_kstack th then None
        else if kt_state th \<noteq> KT_EXITED then None
        else
          let st1 = (case kt_proc th of
                       None \<Rightarrow> st
                     | Some pa \<Rightarrow>
                         (case procs st pa of
                            None \<Rightarrow> st
                          | Some p \<Rightarrow> st\<lparr>procs := (procs st)(pa \<mapsto> p\<lparr>p_threads := remove1 thr (p_threads p)\<rparr>)\<rparr>))
          in Some (slab_obj_free (st1\<lparr>threads := (threads st1)(thr := None)\<rparr>))
      })"

section \<open>Processes (proc/proc.c)\<close>

fun kthread_destroy_all :: "addr list \<Rightarrow> kstate \<Rightarrow> kstate option" where
  "kthread_destroy_all [] st = Some st"
| "kthread_destroy_all (thr # rest) st = do { st1 \<leftarrow> kthread_destroy thr st; kthread_destroy_all rest st1 }"

text \<open>
  The descriptor loop of \<open>proc_destroy\<close>, over the process at \<open>pa\<close>:
  \<open>proc_destroy_file\<close> is its body for one descriptor (\<open>fput\<close> clears the slot it is
  given).
\<close>

definition proc_destroy_file :: "addr \<Rightarrow> nat \<Rightarrow> kstate \<Rightarrow> kstate option" where
  "proc_destroy_file pa fd st =
     do {
       p \<leftarrow> procs st pa;
       case p_files p fd of
         None \<Rightarrow> Some st
       | Some f \<Rightarrow>
           do {
             st1 \<leftarrow> fput f st;
             p1 \<leftarrow> procs st1 pa;
             Some (st1\<lparr>procs := (procs st1)(pa \<mapsto> p1\<lparr>p_files := (p_files p1)(fd := None)\<rparr>)\<rparr>)
           }
     }"

fun proc_destroy_files :: "addr \<Rightarrow> nat list \<Rightarrow> kstate \<Rightarrow> kstate option" where
  "proc_destroy_files pa [] st = Some st"
| "proc_destroy_files pa (fd # fds) st =
     do { st1 \<leftarrow> proc_destroy_file pa fd st; proc_destroy_files pa fds st1 }"

text \<open>
  \<open>proc_destroy(proc)\<close>. Modelled from the spec for the page table: \<open>pt_create\<close> and
  \<open>pt_destroy\<close> belong to the page-table collaborator; a page table takes one unit of
  kernel memory. The working directory is not modelled.
\<close>

definition proc_destroy :: "kconfig \<Rightarrow> addr \<Rightarrow> kstate \<Rightarrow> kstate option" where
  "proc_destroy cfg pa st =
     do {
       p \<leftarrow> procs st pa;
       st1 \<leftarrow> kthread_destroy_all (p_threads p) (st\<lparr>proc_list := remove1 pa (proc_list st)\<rparr>);
       st2 \<leftarrow> proc_destroy_files pa [0..<nat (NFILES cfg)] st1;
       p2 \<leftarrow> procs st2 pa;
       st3 \<leftarrow> vmmap_destroy (p_vmmap p2) st2;
       Some (slab_obj_free (slab_obj_free (st3\<lparr>procs := (procs st3)(pa := None)\<rparr>)))
     }"







text \<open>
  \<open>_proc_getid\<close>: the scan of the process list restarts with the next candidate whenever
  the candidate is taken. The result \<open>- 1\<close> says that every pid is taken.
\<close>

fun pid_in_list :: "int \<Rightarrow> addr list \<Rightarrow> kstate \<Rightarrow> bool option" where
  "pid_in_list pid [] st = Some False"
| "pid_in_list pid (a # rest) st =
     do { p \<leftarrow> procs st a; if p_pid p = pid then Some True else pid_in_list pid rest st }"

partial_function (option) proc_getid_iter :: "kconfig \<Rightarrow> int \<Rightarrow> kstate \<Rightarrow> int option" where
  "proc_getid_iter cfg pid st =
     do {
       taken \<leftarrow> pid_in_list pid (proc_list st) st;
       if taken then
         (if (if pid + 1 = PROC_MAX_COUNT cfg then 1 else pid + 1) = next_pid st then Some (- 1)
          else proc_getid_iter cfg (if pid + 1 = PROC_MAX_COUNT cfg then 1 else pid + 1) st)
       else Some pid
     }"

declare proc_getid_iter.simps [code]

definition proc_getid :: "kconfig \<Rightarrow> kstate \<Rightarrow> (int \<times> kstate) option" where
  "proc_getid cfg st =
     do {
       pid \<leftarrow> proc_getid_iter cfg (next_pid st) st;
       if pid = - 1 then Some (- 1, st)
       else if pid = 0 then None
       else Some (pid, st\<lparr>next_pid := (if pid + 1 = PROC_MAX_COUNT cfg then 1 else pid + 1)\<rparr>)
     }"

text \<open>The descriptor loop of \<open>proc_create\<close>: every open file of the current process gets a reference.\<close>

fun proc_create_files :: "(nat \<Rightarrow> addr option) \<Rightarrow> nat list \<Rightarrow> kstate \<Rightarrow> kstate option" where
  "proc_create_files tbl [] st = Some st"
| "proc_create_files tbl (i # rest) st =
     do {
       st1 \<leftarrow> (case tbl i of None \<Rightarrow> Some st | Some f \<Rightarrow> fref f st);
       proc_create_files tbl rest st1
     }"

text \<open>
  \<open>proc_create(name)\<close>: the result is \<open>Some (None, _)\<close> when it returns null. The name,
  the working directory and the break are not modelled. The new descriptor table is the
  table of the current process below \<open>NFILES\<close> and empty above.
\<close>

definition proc_create :: "kconfig \<Rightarrow> kstate \<Rightarrow> (addr option \<times> kstate) option" where
  "proc_create cfg st =
     do {
       (pid, st1) \<leftarrow> proc_getid cfg st;
       if pid = - 1 then Some (None, st1)
       else case slab_obj_alloc st1 of
         (None, st2) \<Rightarrow> Some (None, st2)
       | (Some a, st2) \<Rightarrow>
           if kmem_avail st2 = 0 then Some (None, slab_obj_free st2)
           else
             (case vmmap_create (st2\<lparr>kmem_avail := kmem_avail st2 - 1\<rparr>) of (vmm, st3) \<Rightarrow>
               do {
                 cur \<leftarrow> procs st3 (curproc st3);
                 st4 \<leftarrow> proc_create_files (p_files cur) [0..<nat (NFILES cfg)] st3;
                 cur4 \<leftarrow> procs st4 (curproc st4);
                 Some (Some a,
                   st4\<lparr>procs := (procs st4)
                          (a \<mapsto> \<lparr>p_pid = pid, p_pproc = Some (curproc st4), p_children = [],
                                 p_threads = [], p_status = 0, p_state = PROC_RUNNING,
                                 p_vmmap = vmm,
                                 p_files = (\<lambda>i. if int i < NFILES cfg then p_files cur i else None)\<rparr>,
                           curproc st4 \<mapsto> cur4\<lparr>p_children := p_children cur4 @ [a]\<rparr>),
                       proc_list := proc_list st4 @ [a],
                       proc_initproc := (if pid = PID_INIT cfg then Some a else proc_initproc st4)\<rparr>)
               })
     }"

section \<open>fork\<close>

text \<open>
  The loop of \<open>do_fork\<close> over the vmareas of the child's map. The first component of the
  result is \<open>None\<close> when \<open>shadow_create\<close> returns null.
\<close>

fun fork_shadow_iter ::
  "kconfig \<Rightarrow> vmarea list \<Rightarrow> kstate \<Rightarrow> (vmarea list option \<times> kstate) option" where
  "fork_shadow_iter cfg [] st = Some (Some [], st)"
| "fork_shadow_iter cfg (vma # rest) st =
     (if vma_flags vma AND MAP_SHARED cfg = 0 then
        do {
          (shadow_obj, st1) \<leftarrow> shadow_create (vma_obj vma) st;
          case shadow_obj of
            None \<Rightarrow> Some (None, st1)
          | Some so \<Rightarrow>
              do {
                st2 \<leftarrow> mobj_ref so st1;
                (rest', st3) \<leftarrow> fork_shadow_iter cfg rest st2;
                Some (map_option ((#) (vma\<lparr>vma_obj := Some so\<rparr>)) rest', st3)
              }
        }
      else
        do {
          (rest', st1) \<leftarrow> fork_shadow_iter cfg rest st;
          Some (map_option ((#) vma) rest', st1)
        })"

text \<open>
  \<open>do_fork\<close> from the point where \<open>kthread_clone\<close> has returned the thread
  \<open>child_thread\<close>. When \<open>shadow_create\<close> fails the source destroys the map it has just
  stored in \<open>child_proc->p_vmmap\<close> and then calls \<open>proc_destroy\<close>, which destroys that
  map again: a use after free, \<open>None\<close> here. Registers, the kernel stack of the child and
  the unmapping of the parent's pages are not modelled.
\<close>

definition do_fork_cloned ::
  "kconfig \<Rightarrow> addr \<Rightarrow> addr \<Rightarrow> kstate \<Rightarrow> ((errno + int) \<times> kstate) option" where
  "do_fork_cloned cfg child_proc child_thread st =
     do {
       cth \<leftarrow> threads st child_thread;
       chp \<leftarrow> procs st child_proc;
       let st1 = st\<lparr>threads := (threads st)(child_thread \<mapsto> cth\<lparr>kt_proc := Some child_proc\<rparr>),
                    procs := (procs st)(child_proc \<mapsto> chp\<lparr>p_threads := p_threads chp @ [child_thread]\<rparr>)\<rparr>;
       cur \<leftarrow> procs st1 (curproc st1);
       parent_map \<leftarrow> p_vmmap cur;
       (cloned, st2) \<leftarrow> vmmap_clone cfg parent_map st1;
       case cloned of
         None \<Rightarrow>
           do {
             st3 \<leftarrow> kthread_destroy child_thread st2;
             st4 \<leftarrow> proc_destroy cfg child_proc st3;
             Some (Inl ENOMEM, st4)
           }
       | Some child_vmmap \<Rightarrow>
           do {
             (shadowed_map, st3) \<leftarrow> fork_shadow_iter cfg child_vmmap st2;
             case shadowed_map of
               None \<Rightarrow> None
             | Some child_vmmap' \<Rightarrow>
                 do {
                   chp3 \<leftarrow> procs st3 child_proc;
                   st4 \<leftarrow> sched_make_runnable child_thread
                           (st3\<lparr>procs := (procs st3)(child_proc \<mapsto> chp3\<lparr>p_vmmap := Some child_vmmap'\<rparr>)\<rparr>);
                   Some (Inr (p_pid chp3), st4)
                 }
           }
     }"

definition do_fork :: "kconfig \<Rightarrow> kstate \<Rightarrow> ((errno + int) \<times> kstate) option" where
  "do_fork cfg st =
     do {
       (created, st1) \<leftarrow> proc_create cfg st;
       case created of
         None \<Rightarrow> Some (Inl ENOMEM, st1)
       | Some child_proc \<Rightarrow>
           do {
             (cloned, st2) \<leftarrow> kthread_clone (curthr st1) st1;
             case cloned of
               None \<Rightarrow> do { st3 \<leftarrow> proc_destroy cfg child_proc st2; Some (Inl ENOMEM, st3) }
             | Some child_thread \<Rightarrow> do_fork_cloned cfg child_proc child_thread st2
           }
     }"

section \<open>The invariant of an address space, and sample data\<close>

text \<open>
  The invariant the specification states for every address space: the vmareas are
  pairwise disjoint, strictly sorted by start in list order, and each lies inside the
  user page range with \<open>start < end\<close>.
\<close>

definition vmmap_invariant :: "kconfig \<Rightarrow> vmarea list \<Rightarrow> bool" where
  "vmmap_invariant cfg vmm_list =
     (list_all (\<lambda>v. ADDR_TO_PN cfg (USER_MEM_LOW cfg) \<le> vma_start v \<and> vma_start v < vma_end v
                     \<and> vma_end v \<le> ADDR_TO_PN cfg (USER_MEM_HIGH cfg)) vmm_list
      \<and> sorted_wrt (\<lambda>a b. vma_start a < vma_start b
                           \<and> (vma_end a \<le> vma_start b \<or> vma_end b \<le> vma_start a)) vmm_list)"

text \<open>
  A configuration for the examples: 4 KiB pages, user memory from \<open>0x400000\<close> up to
  \<open>2 ^ 47\<close> (pages \<open>0x400\<close> up to \<open>0x800000000\<close>), 32 descriptors, and one bit per flag.
\<close>

definition sample_cfg :: kconfig where
  "sample_cfg =
     \<lparr>PAGE_SHIFT = 12, USER_MEM_LOW = 0x400000, USER_MEM_HIGH = 0x800000000000,
      NFILES = 32, PROC_MAX_COUNT = 65536, PID_INIT = 1,
      MAP_SHARED = 1, MAP_PRIVATE = 2, MAP_FIXED = 4, MAP_ANON = 8,
      PROT_READ = 1, PROT_WRITE = 2,
      FMODE_READ = 1, FMODE_WRITE = 2, FMODE_APPEND = 4\<rparr>"

text \<open>A readable and writable private vmarea over the pages from \<open>s\<close> up to \<open>e\<close>, backed by \<open>ob\<close>.\<close>

definition private_vma :: "64 word \<Rightarrow> 64 word \<Rightarrow> addr option \<Rightarrow> vmarea" where
  "private_vma s e ob =
     \<lparr>vma_start = s, vma_end = e, vma_off = 0, vma_prot = 3, vma_flags = 2, vma_obj = ob\<rparr>"

text \<open>
  A state for the examples: the process at address 10 (pid 2) runs its only thread, at
  address 20; its address space is empty and it has no open file; 16 allocations will
  succeed.
\<close>

definition sample_thread :: kthread where
  "sample_thread =
     \<lparr>kt_state = KT_ON_CPU, kt_cancelled = 0, kt_wchan = None, kt_proc = Some 10,
      kt_retval = 0, kt_kstack = True\<rparr>"

definition sample_proc :: proc where
  "sample_proc =
     \<lparr>p_pid = 2, p_pproc = None, p_children = [], p_threads = [20], p_status = 0,
      p_state = PROC_RUNNING, p_vmmap = Some [], p_files = (\<lambda>_. None)\<rparr>"

definition sample_state :: kstate where
  "sample_state =
     \<lparr>kmem_avail = 16, next_addr = 100, mobjs = Map.empty, vnodes = Map.empty,
      files = Map.empty, procs = [10 \<mapsto> sample_proc], proc_list = [10], next_pid = 3,
      proc_initproc = None, idleproc = 0, curproc = 10, threads = [20 \<mapsto> sample_thread],
      curthr = Some 20, queues = (\<lambda>_. [])\<rparr>"

text \<open>
  The state with every descriptor table emptied and no open file: what is left when
  the descriptors are ignored.
\<close>

definition forget_files :: "kstate \<Rightarrow> kstate" where
  "forget_files st =
     st\<lparr>files := Map.empty,
        procs := (\<lambda>a. map_option (\<lambda>p. p\<lparr>p_files := (\<lambda>_. None)\<rparr>) (procs st a))\<rparr>"

text \<open>
  The reference counts cover the descriptor \<open>nfd\<close> of process \<open>p\<close>: the slot is empty, or
  it holds a live open file with a reference for this slot, and a second one when the
  file is also \<open>f\<close>, the file of another slot of the table.
\<close>

definition fd_slot_counted :: "kstate \<Rightarrow> proc \<Rightarrow> addr \<Rightarrow> int \<Rightarrow> bool" where
  "fd_slot_counted st p f nfd =
     (case p_files p (nat nfd) of
        None \<Rightarrow> True
      | Some g \<Rightarrow>
          (case files st g of
             None \<Rightarrow> False
           | Some gl \<Rightarrow> f_refcount gl > (if g = f then 1 else 0)))"

text \<open>
  The sample state with two open files, at addresses 30 and 31, on the descriptors 0
  and 1 of the current process.
\<close>

definition dup_proc :: proc where
  "dup_proc = sample_proc\<lparr>p_files := (\<lambda>_. None)(0 \<mapsto> 30, 1 \<mapsto> 31)\<rparr>"

definition dup_state :: kstate where
  "dup_state =
     sample_state\<lparr>files := [30 \<mapsto> \<lparr>f_refcount = 1, f_mode = 1, f_pos = 0, f_vnode = 40\<rparr>,
                            31 \<mapsto> \<lparr>f_refcount = 1, f_mode = 3, f_pos = 7, f_vnode = 41\<rparr>],
                  procs := [10 \<mapsto> dup_proc]\<rparr>"

text \<open>
  A shadow chain for the examples: the shadow object 3 shadows the shadow object 2,
  which shadows the anonymous object 1, the bottom of both. Object 2 has one reference
  (from 3) and holds page 5; object 3 holds page 6.
\<close>

definition collapse_state :: kstate where
  "collapse_state =
     sample_state\<lparr>mobjs :=
       [1 \<mapsto> \<lparr>mo_type = MOBJ_ANON, mo_refcount = 3, mo_pframes = [(7, 70)],
               shadowed = None, bottom_mobj = None\<rparr>,
        2 \<mapsto> \<lparr>mo_type = MOBJ_SHADOW, mo_refcount = 1, mo_pframes = [(5, 55)],
               shadowed = Some 1, bottom_mobj = Some 1\<rparr>,
        3 \<mapsto> \<lparr>mo_type = MOBJ_SHADOW, mo_refcount = 1, mo_pframes = [(6, 66)],
               shadowed = Some 2, bottom_mobj = Some 1\<rparr>]\<rparr>"

text \<open>
  A state for fork: the current process maps a private vmarea backed by the anonymous
  object 1 and a shared vmarea backed by the anonymous object 2. Thread 21 is a fresh
  thread without a process, as a working \<open>kthread_clone\<close> would return it.
\<close>

definition fork_state :: kstate where
  "fork_state =
     sample_state\<lparr>
       mobjs := [1 \<mapsto> \<lparr>mo_type = MOBJ_ANON, mo_refcount = 1, mo_pframes = [],
                       shadowed = None, bottom_mobj = None\<rparr>,
                2 \<mapsto> \<lparr>mo_type = MOBJ_ANON, mo_refcount = 1, mo_pframes = [],
                       shadowed = None, bottom_mobj = None\<rparr>],
       procs := [10 \<mapsto> sample_proc\<lparr>p_vmmap := Some [private_vma 0x410 0x420 (Some 1),
                    (private_vma 0x430 0x440 (Some 2))\<lparr>vma_flags := 1\<rparr>]\<rparr>],
       threads := [20 \<mapsto> sample_thread,
                   21 \<mapsto> sample_thread\<lparr>kt_state := KT_NO_STATE, kt_proc := None\<rparr>]\<rparr>"






















chapter \<open>The claims\<close>

section \<open>Address spaces\<close>

lemma sample_cfg_pages:
  "ADDR_TO_PN sample_cfg (USER_MEM_LOW sample_cfg) = 0x400"
  "ADDR_TO_PN sample_cfg (USER_MEM_HIGH sample_cfg) = 0x800000000"
  by (simp_all add: sample_cfg_def ADDR_TO_PN_def)

text \<open>
  Claim C3 (does not hold of the code). \<open>vmmap_find_range\<close> with \<open>VMMAP_DIR_HILO\<close> is
  claimed to return the start of the highest gap that holds \<open>npages\<close> pages, and \<open>- 1\<close>
  exactly when there is no such gap. With the user pages running from \<open>0x400\<close> up to
  \<open>0x800000000\<close>:
  \<^item> with one vmarea on the lowest user page and \<open>npages = 1\<close> the function returns page
    \<open>0x3FF\<close>, below user memory, although every page from \<open>0x401\<close> up is free;
  \<^item> with one vmarea on the highest user page and \<open>npages = 2\<close> it returns \<open>0x7FFFFFFFE\<close>,
    a range that contains the mapped page;
  \<^item> on an empty map, asked for more pages than user memory has, it returns \<open>0\<close> (and
    \<open>0x400\<close> with \<open>VMMAP_DIR_LOHI\<close>) instead of \<open>- 1\<close>.
\<close>

theorem vmmap_find_range_hilo_wrong_gap:
  "vmmap_find_range sample_cfg [private_vma 0x400 0x401 None] 1 VMMAP_DIR_HILO = 0x3FF
   \<and> vmmap_find_range sample_cfg [private_vma 0x7FFFFFFFF 0x800000000 None] 2 VMMAP_DIR_HILO
       = 0x7FFFFFFFE
   \<and> vmmap_find_range sample_cfg [] 0x800000000 VMMAP_DIR_HILO = 0
   \<and> vmmap_find_range sample_cfg [] 0x800000000 VMMAP_DIR_LOHI = 0x400"
  by (simp add: vmmap_find_range_def sample_cfg_pages private_vma_def)

text \<open>
  Claim C4 (does not hold of the code). After \<open>vmmap_remove\<close> no vmarea is claimed to
  contain a page of the removed range, and every page outside it to stay mapped. A
  vmarea that starts inside the removed range and ends above it is not cut down to the
  pages above the range: its bounds are set to the removed range itself. With the vmarea
  over pages \<open>0x410\<close> up to \<open>0x420\<close> and the removal of the 16 pages from \<open>0x408\<close>, the map
  afterwards holds one vmarea over \<open>0x408\<close> up to \<open>0x418\<close>: page \<open>0x409\<close> of the removed
  range is mapped, and page \<open>0x41C\<close>, outside the range and mapped before, is not.
\<close>

theorem vmmap_remove_high_overlap_keeps_range:
  "map_option fst (vmmap_remove [private_vma 0x410 0x420 ob] 0x408 0x10 st)
     = Some [(private_vma 0x408 0x418 ob)\<lparr>vma_off := - 8\<rparr>]
   \<and> vmmap_lookup [private_vma 0x410 0x420 ob] 0x41C = Some (private_vma 0x410 0x420 ob)
   \<and> vmmap_lookup [(private_vma 0x408 0x418 ob)\<lparr>vma_off := - 8\<rparr>] 0x41C = None
   \<and> vmmap_lookup [(private_vma 0x408 0x418 ob)\<lparr>vma_off := - 8\<rparr>] 0x409
       = Some ((private_vma 0x408 0x418 ob)\<lparr>vma_off := - 8\<rparr>)"
  by (simp add: vmmap_remove_def vmmap_lookup_def private_vma_def)

text \<open>
  Claim C5 (does not hold of the code). Every public operation is claimed to keep the
  vmareas disjoint, strictly sorted and inside the user range. The map with the single
  vmarea over pages \<open>0x410\<close> up to \<open>0x420\<close> is what \<open>vmmap_insert\<close> makes of the empty map,
  and it satisfies the invariant. Removing the 4 pages from \<open>0x414\<close> splits the vmarea,
  and the upper part (from \<open>0x418\<close>) is linked before the lower part (from \<open>0x410\<close>): the
  list is no longer sorted.
\<close>

theorem vmmap_remove_split_breaks_sorting:
  "vmmap_insert sample_cfg [] (private_vma 0x410 0x420 ob) = Some [private_vma 0x410 0x420 ob]
   \<and> vmmap_invariant sample_cfg [private_vma 0x410 0x420 ob]
   \<and> map_option fst (vmmap_remove [private_vma 0x410 0x420 ob] 0x414 4 (st\<lparr>kmem_avail := 1\<rparr>))
       = Some [(private_vma 0x418 0x420 ob)\<lparr>vma_off := 8\<rparr>, private_vma 0x410 0x414 ob]
   \<and> \<not> vmmap_invariant sample_cfg
         [(private_vma 0x418 0x420 ob)\<lparr>vma_off := 8\<rparr>, private_vma 0x410 0x414 ob]"
  by (simp add: vmmap_insert_def vmmap_invariant_def vmmap_remove_def vmarea_alloc_def
      slab_obj_alloc_def sample_cfg_pages private_vma_def)

section \<open>Shadow objects and fork\<close>

text \<open>
  Claim C2 (does not hold of the code). \<open>shadow_collapse(S)\<close> is claimed to leave in \<open>S\<close>
  every page the spliced-out object held and \<open>S\<close> did not. In the sample chain object 3
  shadows object 2, a shadow object with one reference that holds page 5. After
  \<open>shadow_collapse\<close> on 3, object 3 points to object 1 and object 2 is gone, as claimed,
  but object 3 still holds page 6 only: page 5 is lost.
\<close>

theorem shadow_collapse_loses_pages:
  "map_option (\<lambda>st. (mobjs st 3, mobjs st 2, map_option mo_refcount (mobjs st 1)))
     (shadow_collapse 3 collapse_state)
   = Some (Some \<lparr>mo_type = MOBJ_SHADOW, mo_refcount = 1, mo_pframes = [(6, 66)],
                  shadowed = Some 1, bottom_mobj = Some 1\<rparr>, None, Some 2)"
  by code_simp

text \<open>
  Claim C1 (does not hold of the code). After \<open>do_fork\<close> every private vmarea of the
  parent and of the child is claimed to have a new shadow object on top of its old
  object. In the sample state the parent maps a private vmarea on object 1 and a shared
  one on object 2.
  \<^item> \<open>do_fork\<close> returns \<open>ENOMEM\<close>, because \<open>kthread_clone\<close> returns null; the parent's
    private vmarea is still backed by object 1, which nothing shadows.
  \<^item> From the point where a thread has been cloned (thread 21 in place of the clone),
    the rest of \<open>do_fork\<close> returns the child's pid 3; the child's private vmarea is
    backed by the new shadow object 105 on top of object 1, the shared vmareas of both
    keep object 2, but the parent's private vmarea is still backed by object 1 itself:
    the loop that creates the shadow objects only walks the child's map.
\<close>

theorem do_fork_parent_not_shadowed:
  "map_option (\<lambda>(r, st'). (r, map_option p_vmmap (procs st' 10), mobjs st' 1))
     (do_fork sample_cfg fork_state)
   = Some (Inl ENOMEM,
       Some (Some [private_vma 0x410 0x420 (Some 1),
                   (private_vma 0x430 0x440 (Some 2))\<lparr>vma_flags := 1\<rparr>]),
       Some \<lparr>mo_type = MOBJ_ANON, mo_refcount = 1, mo_pframes = [],
              shadowed = None, bottom_mobj = None\<rparr>)
   \<and> (case proc_create sample_cfg fork_state of
        Some (Some child_proc, st1) \<Rightarrow>
          map_option
            (\<lambda>(r, st2). (r, map_option p_vmmap (procs st2 10),
                          map_option p_vmmap (procs st2 child_proc),
                          map_option mo_type (mobjs st2 1), mobjs st2 105))
            (do_fork_cloned sample_cfg child_proc 21 st1)
      | _ \<Rightarrow> None)
     = Some (Inr 3,
         Some (Some [private_vma 0x410 0x420 (Some 1),
                     (private_vma 0x430 0x440 (Some 2))\<lparr>vma_flags := 1\<rparr>]),
         Some (Some [private_vma 0x410 0x420 (Some 105),
                     (private_vma 0x430 0x440 (Some 2))\<lparr>vma_flags := 1\<rparr>]),
         Some MOBJ_ANON,
         Some \<lparr>mo_type = MOBJ_SHADOW, mo_refcount = 2, mo_pframes = [],
                shadowed = Some 1, bottom_mobj = Some 1\<rparr>)"
  by code_simp

section \<open>mmap\<close>

text \<open>
  Claim C8, as stated, fails on the code: a call whose flags hold both \<open>MAP_PRIVATE\<close> and
  \<open>MAP_SHARED\<close> is claimed to fail with \<open>EINVAL\<close>. The check of the flags only rejects
  flags that hold neither (the comment of \<open>do_mmap\<close>: "flags do not contain MAP_PRIVATE
  or MAP_SHARED"). With flags \<open>MAP_PRIVATE | MAP_SHARED | MAP_ANON\<close>, \<open>fd = - 1\<close> and one
  page the call succeeds and maps the highest user page.
\<close>

theorem do_mmap_private_and_shared_accepted:
  "(11 :: 32 word) AND MAP_PRIVATE sample_cfg \<noteq> 0
   \<and> (11 :: 32 word) AND MAP_SHARED sample_cfg \<noteq> 0
   \<and> map_option fst (do_mmap sample_cfg 0 0x1000 3 11 (- 1) 0 True sample_state)
       = Some (Inr (Some 0x7FFFFFFFF000))"
  by code_simp

text \<open>
  Claim C8, amended: \<open>do_mmap\<close> fails with \<open>EINVAL\<close>, and changes nothing, whenever
  \<open>len\<close> is 0, or \<open>off\<close> is negative or not page-aligned, or the flags hold neither
  \<open>MAP_PRIVATE\<close> nor \<open>MAP_SHARED\<close>, or \<open>MAP_FIXED\<close> is given and \<open>addr\<close> is not page-aligned
  or outside the user address range.
\<close>

theorem do_mmap_validation:
  assumes "len = 0 \<or> sint off < 0 \<or> \<not> PAGE_ALIGNED cfg off
     \<or> (flags AND MAP_PRIVATE cfg = 0 \<and> flags AND MAP_SHARED cfg = 0)
     \<or> (flags AND MAP_FIXED cfg \<noteq> 0
         \<and> (\<not> PAGE_ALIGNED cfg addr \<or> addr < USER_MEM_LOW cfg \<or> addr \<ge> USER_MEM_HIGH cfg))"
  shows "do_mmap cfg addr len prot flags fd off ret_given st = Some (Inl EINVAL, st)"
  using assms unfolding do_mmap_def by auto

theorem do_mmap_validation_witness:
  "(8 :: 32 word) AND MAP_PRIVATE sample_cfg = 0 \<and> (8 :: 32 word) AND MAP_SHARED sample_cfg = 0
   \<and> do_mmap sample_cfg 0 0x1000 3 8 (- 1) 0 True sample_state = Some (Inl EINVAL, sample_state)
   \<and> \<not> PAGE_ALIGNED sample_cfg 0x1001
   \<and> do_mmap sample_cfg 0x1001 0x1000 3 6 (- 1) 0 True sample_state = Some (Inl EINVAL, sample_state)"
proof -
  have flags: "(8 :: 32 word) AND MAP_PRIVATE sample_cfg = 0 \<and> (8 :: 32 word) AND MAP_SHARED sample_cfg = 0"
    by (simp add: sample_cfg_def)
  have addr: "\<not> PAGE_ALIGNED sample_cfg 0x1001" "(6 :: 32 word) AND MAP_FIXED sample_cfg \<noteq> 0"
    by code_simp+
  show ?thesis
    using flags addr
      do_mmap_validation [where len = 4096 and off = 0 and cfg = sample_cfg and flags = 8
        and addr = 0 and prot = 3 and fd = "- 1" and ret_given = True and st = sample_state]
      do_mmap_validation [where len = 4096 and off = 0 and cfg = sample_cfg and flags = 6
        and addr = 4097 and prot = 3 and fd = "- 1" and ret_given = True and st = sample_state]
    by simp
qed

lemma forget_files_simps [simp]:
  "kmem_avail (forget_files st) = kmem_avail st"
  "next_addr (forget_files st) = next_addr st"
  "mobjs (forget_files st) = mobjs st"
  "curproc (forget_files st) = curproc st"
  "procs (forget_files st) a = map_option (\<lambda>p. p\<lparr>p_files := (\<lambda>_. None)\<rparr>) (procs st a)"
  "forget_files (st\<lparr>kmem_avail := k\<rparr>) = (forget_files st)\<lparr>kmem_avail := k\<rparr>"
  "forget_files (st\<lparr>next_addr := n\<rparr>) = (forget_files st)\<lparr>next_addr := n\<rparr>"
  "forget_files (st\<lparr>mobjs := m\<rparr>) = (forget_files st)\<lparr>mobjs := m\<rparr>"
  by (simp_all add: forget_files_def)

lemma forget_files_vmmap_upd:
  "forget_files (st\<lparr>procs := (procs st)(a \<mapsto> p\<lparr>p_vmmap := m\<rparr>)\<rparr>)
     = (forget_files st)\<lparr>procs := (procs (forget_files st))
                                   (a \<mapsto> p\<lparr>p_files := (\<lambda>_. None), p_vmmap := m\<rparr>)\<rparr>"
  by (auto simp add: forget_files_def fun_eq_iff)

lemma vmmap_map_anon_forget:
  assumes "flags AND MAP_ANON cfg \<noteq> 0"
  shows "vmmap_map cfg m None lp n prot flags off dir (forget_files st)
     = map_option (\<lambda>(r, m', s). (r, m', forget_files s))
         (vmmap_map cfg m None lp n prot flags off dir st)"
  using assms
  by (auto simp add: vmmap_map_def Let_def vmarea_alloc_def slab_obj_alloc_def anon_create_def
      vmarea_free_def slab_obj_free_def split: option.splits prod.splits bind_splits)

lemma vmmap_map_anon_frame:
  assumes "flags AND MAP_ANON cfg \<noteq> 0"
    and "vmmap_map cfg m None lp n prot flags off dir st = Some (r, m', s)"
  shows "files s = files st \<and> procs s = procs st \<and> curproc s = curproc st"
  using assms
  by (auto simp add: vmmap_map_def Let_def vmarea_alloc_def slab_obj_alloc_def anon_create_def
      vmarea_free_def slab_obj_free_def split: option.splits prod.splits bind_splits if_splits)

text \<open>
  Claim C10. With \<open>MAP_ANON\<close> in the flags: if \<open>fd\<close> is not \<open>- 1\<close> the call returns
  \<open>EINVAL\<close> and the state, so the address space, is unchanged; hence a call that
  changes the address space has \<open>fd = - 1\<close>. The descriptor is never used to look up a
  file: the call on the state without any descriptor or open file does what the call
  on the state itself does, and the call leaves the open files and every descriptor
  table as they are.
\<close>

theorem do_mmap_anon_fd:
  assumes "flags AND MAP_ANON cfg \<noteq> 0"
  shows "(fd \<noteq> - 1 \<longrightarrow> do_mmap cfg addr len prot flags fd off ret_given st = Some (Inl EINVAL, st))
    \<and> do_mmap cfg addr len prot flags fd off ret_given (forget_files st)
        = map_option (\<lambda>(r, s). (r, forget_files s))
            (do_mmap cfg addr len prot flags fd off ret_given st)
    \<and> (\<forall>r st'. do_mmap cfg addr len prot flags fd off ret_given st = Some (r, st') \<longrightarrow>
          files st' = files st
          \<and> (\<forall>a. map_option p_files (procs st' a) = map_option p_files (procs st a)))"
proof (intro conjI allI impI)
  assume "fd \<noteq> - 1"
  with assms show "do_mmap cfg addr len prot flags fd off ret_given st = Some (Inl EINVAL, st)"
    unfolding do_mmap_def by (simp add: Let_def)
next
  show "do_mmap cfg addr len prot flags fd off ret_given (forget_files st)
        = map_option (\<lambda>(r, s). (r, forget_files s))
            (do_mmap cfg addr len prot flags fd off ret_given st)"
    using assms unfolding do_mmap_def
    by (auto simp add: Let_def vmmap_map_anon_forget mmap_finish_def forget_files_vmmap_upd
        split: option.splits prod.splits bind_splits sum.splits)
next
  fix r st' a
  assume "do_mmap cfg addr len prot flags fd off ret_given st = Some (r, st')"
  with assms show "files st' = files st"
    unfolding do_mmap_def
    by (auto simp add: Let_def mmap_finish_def split: if_splits bind_splits prod.splits
        dest!: vmmap_map_anon_frame [rotated])
next
  fix r st' a
  assume "do_mmap cfg addr len prot flags fd off ret_given st = Some (r, st')"
  with assms show "map_option p_files (procs st' a) = map_option p_files (procs st a)"
    unfolding do_mmap_def
    by (auto simp add: Let_def mmap_finish_def split: if_splits bind_splits prod.splits
        dest!: vmmap_map_anon_frame [rotated])
qed

theorem do_mmap_anon_fd_witness:
  "(10 :: 32 word) AND MAP_ANON sample_cfg \<noteq> 0
   \<and> do_mmap sample_cfg 0 0x1000 3 10 0 0 True dup_state = Some (Inl EINVAL, dup_state)
   \<and> map_option fst (do_mmap sample_cfg 0 0x1000 3 10 (- 1) 0 True (forget_files dup_state))
       = map_option fst (do_mmap sample_cfg 0 0x1000 3 10 (- 1) 0 True dup_state)
   \<and> map_option fst (do_mmap sample_cfg 0 0x1000 3 10 (- 1) 0 True dup_state)
       = Some (Inr (Some 0x7FFFFFFFF000))"
proof -
  have anon: "(10 :: 32 word) AND MAP_ANON sample_cfg \<noteq> 0"
    by (simp add: sample_cfg_def)
  have run: "map_option fst (do_mmap sample_cfg 0 0x1000 3 10 (- 1) 0 True dup_state)
       = Some (Inr (Some 0x7FFFFFFFF000))"
    by code_simp
  have refused: "do_mmap sample_cfg 0 0x1000 3 10 0 0 True dup_state = Some (Inl EINVAL, dup_state)"
    using do_mmap_anon_fd [OF anon, where fd = 0 and addr = 0 and len = 4096 and prot = 3
        and off = 0 and ret_given = True and st = dup_state]
    by simp
  have "do_mmap sample_cfg 0 0x1000 3 10 (- 1) 0 True (forget_files dup_state)
        = map_option (\<lambda>(r, s). (r, forget_files s))
            (do_mmap sample_cfg 0 0x1000 3 10 (- 1) 0 True dup_state)"
    using do_mmap_anon_fd [OF anon, where fd = "- 1" and addr = 0 and len = 4096 and prot = 3
        and off = 0 and ret_given = True and st = dup_state]
    by blast
  then have same: "map_option fst (do_mmap sample_cfg 0 0x1000 3 10 (- 1) 0 True (forget_files dup_state))
       = map_option fst (do_mmap sample_cfg 0 0x1000 3 10 (- 1) 0 True dup_state)"
    by (simp add: option.map_comp comp_def case_prod_unfold)
  from anon refused same run show ?thesis
    by blast
qed

section \<open>Descriptors\<close>

text \<open>
  Claim C9. Let \<open>ofd\<close> and \<open>nfd\<close> be valid indices, \<open>ofd\<close> open on the open file \<open>f\<close>, and
  let the reference counts cover slot \<open>nfd\<close>. If \<open>ofd = nfd\<close>, \<open>do_dup2\<close> returns \<open>nfd\<close>
  and the state is unchanged. Otherwise it returns \<open>nfd\<close>; if slot \<open>nfd\<close> was occupied,
  the state \<open>st1\<close> in which the rest happens is the one \<open>do_close(nfd)\<close> leaves; then the
  reference count of \<open>f\<close> is incremented and slot \<open>nfd\<close> holds \<open>f\<close>: the table is the old
  one with \<open>f\<close> at \<open>nfd\<close>, so \<open>ofd\<close> and \<open>nfd\<close> name the same open file, with its one
  position and mode, and every other slot is as before.
\<close>

theorem do_dup2_shares_open_file:
  assumes fds: "0 \<le> ofd" "ofd < NFILES cfg" "0 \<le> nfd" "nfd < NFILES cfg"
    and cur: "procs st (curproc st) = Some p"
    and src: "p_files p (nat ofd) = Some f"
  shows "(ofd = nfd \<longrightarrow> do_dup2 cfg ofd nfd st = Some (Inr nfd, st))
    \<and> (ofd \<noteq> nfd \<and> files st f = Some fl \<and> fd_slot_counted st p f nfd \<longrightarrow>
         (\<exists>st1 fl1.
            (case p_files p (nat nfd) of
               None \<Rightarrow> st1 = st
             | Some g \<Rightarrow> do_close cfg nfd st = Some (Inr 0, st1))
            \<and> files st1 f = Some fl1
            \<and> (p_files p (nat nfd) \<noteq> Some f \<longrightarrow> fl1 = fl)
            \<and> (p_files p (nat nfd) = Some f \<longrightarrow> fl1 = fl\<lparr>f_refcount := f_refcount fl - 1\<rparr>)
            \<and> do_dup2 cfg ofd nfd st
                = Some (Inr nfd,
                    st1\<lparr>files := (files st1)(f \<mapsto> fl1\<lparr>f_refcount := Suc (f_refcount fl1)\<rparr>),
                        procs := (procs st1)
                          (curproc st \<mapsto> p\<lparr>p_files := (p_files p)(nat nfd \<mapsto> f)\<rparr>)\<rparr>)))"
proof (intro conjI impI)
  assume "ofd = nfd"
  with fds cur src show "do_dup2 cfg ofd nfd st = Some (Inr nfd, st)"
    by (simp add: do_dup2_def)
next
  assume a: "ofd \<noteq> nfd \<and> files st f = Some fl \<and> fd_slot_counted st p f nfd"
  then have ne: "ofd \<noteq> nfd" and fl: "files st f = Some fl" and tgt: "fd_slot_counted st p f nfd"
    by simp_all
  show "\<exists>st1 fl1.
            (case p_files p (nat nfd) of
               None \<Rightarrow> st1 = st
             | Some g \<Rightarrow> do_close cfg nfd st = Some (Inr 0, st1))
            \<and> files st1 f = Some fl1
            \<and> (p_files p (nat nfd) \<noteq> Some f \<longrightarrow> fl1 = fl)
            \<and> (p_files p (nat nfd) = Some f \<longrightarrow> fl1 = fl\<lparr>f_refcount := f_refcount fl - 1\<rparr>)
            \<and> do_dup2 cfg ofd nfd st
                = Some (Inr nfd,
                    st1\<lparr>files := (files st1)(f \<mapsto> fl1\<lparr>f_refcount := Suc (f_refcount fl1)\<rparr>),
                        procs := (procs st1)
                          (curproc st \<mapsto> p\<lparr>p_files := (p_files p)(nat nfd \<mapsto> f)\<rparr>)\<rparr>)"
  proof (cases "p_files p (nat nfd)")
    case None
    with fds cur src fl ne show ?thesis
      by (simp add: do_dup2_def fref_def)
  next
    case (Some g)
    with tgt obtain gl where gl: "files st g = Some gl" "f_refcount gl > (if g = f then 1 else 0)"
      by (auto simp add: fd_slot_counted_def split: option.splits)
    show ?thesis
    proof (cases "g = f")
      case True
      with Some gl src fl fds cur ne show ?thesis
        by (simp add: do_dup2_def do_close_def fput_def fref_def)
    next
      case False
      with Some gl src fl fds cur ne show ?thesis
        by (auto simp add: do_dup2_def do_close_def fput_def fref_def slab_obj_free_def)
    qed
  qed
qed

theorem do_dup2_shares_open_file_witness:
  "procs dup_state (curproc dup_state) = Some dup_proc
   \<and> p_files dup_proc (nat 0) = Some 30
   \<and> files dup_state 30 = Some \<lparr>f_refcount = 1, f_mode = 1, f_pos = 0, f_vnode = 40\<rparr>
   \<and> fd_slot_counted dup_state dup_proc 30 1
   \<and> do_dup2 sample_cfg 0 0 dup_state = Some (Inr 0, dup_state)
   \<and> (\<exists>st'. do_dup2 sample_cfg 0 1 dup_state = Some (Inr 1, st')
         \<and> map_option (\<lambda>p. (p_files p 0, p_files p 1)) (procs st' 10) = Some (Some 30, Some 30)
         \<and> files st' 30 = Some \<lparr>f_refcount = 2, f_mode = 1, f_pos = 0, f_vnode = 40\<rparr>
         \<and> files st' 31 = None)"
proof -
  have cur: "procs dup_state (curproc dup_state) = Some dup_proc"
    by (simp add: dup_state_def sample_state_def)
  have src: "p_files dup_proc (nat 0) = Some 30"
    by (simp add: dup_proc_def)
  have fl: "files dup_state 30 = Some \<lparr>f_refcount = 1, f_mode = 1, f_pos = 0, f_vnode = 40\<rparr>"
    by (simp add: dup_state_def)
  have tgt: "fd_slot_counted dup_state dup_proc 30 1"
    by (simp add: fd_slot_counted_def dup_state_def dup_proc_def)
  have n: "NFILES sample_cfg = 32"
    by (simp add: sample_cfg_def)
  have same: "do_dup2 sample_cfg 0 0 dup_state = Some (Inr 0, dup_state)"
    using do_dup2_shares_open_file [where ofd = 0 and nfd = 0 and cfg = sample_cfg, OF _ _ _ _ cur src]
    by (simp add: n)
  have closed: "do_close sample_cfg 1 dup_state
     = Some (Inr 0, slab_obj_free (dup_state\<lparr>procs := (procs dup_state)
                 (10 \<mapsto> dup_proc\<lparr>p_files := (p_files dup_proc)(1 := None)\<rparr>),
               files := (files dup_state)(31 := None)\<rparr>))"
    by (simp add: do_close_def n fput_def dup_state_def dup_proc_def sample_state_def)
  have "\<exists>st1 fl1.
            (case p_files dup_proc (nat 1) of
               None \<Rightarrow> st1 = dup_state
             | Some g \<Rightarrow> do_close sample_cfg 1 dup_state = Some (Inr 0, st1))
            \<and> files st1 30 = Some fl1
            \<and> (p_files dup_proc (nat 1) \<noteq> Some 30 \<longrightarrow>
                 fl1 = \<lparr>f_refcount = 1, f_mode = 1, f_pos = 0, f_vnode = 40\<rparr>)
            \<and> (p_files dup_proc (nat 1) = Some 30 \<longrightarrow>
                 fl1 = \<lparr>f_refcount = 1, f_mode = 1, f_pos = 0, f_vnode = 40\<rparr>
                         \<lparr>f_refcount := f_refcount \<lparr>f_refcount = 1, f_mode = 1, f_pos = 0, f_vnode = 40\<rparr> - 1\<rparr>)
            \<and> do_dup2 sample_cfg 0 1 dup_state
                = Some (Inr 1,
                    st1\<lparr>files := (files st1)(30 \<mapsto> fl1\<lparr>f_refcount := Suc (f_refcount fl1)\<rparr>),
                        procs := (procs st1)
                          (curproc dup_state \<mapsto> dup_proc\<lparr>p_files := (p_files dup_proc)(nat 1 \<mapsto> 30)\<rparr>)\<rparr>)"
    using do_dup2_shares_open_file [where ofd = 0 and nfd = 1 and cfg = sample_cfg
        and fl = "\<lparr>f_refcount = 1, f_mode = 1, f_pos = 0, f_vnode = 40\<rparr>", OF _ _ _ _ cur src]
      fl tgt
    by (simp add: n)
  then obtain st1 fl1 where
    c: "do_close sample_cfg 1 dup_state = Some (Inr 0, st1)"
    and f1: "fl1 = \<lparr>f_refcount = 1, f_mode = 1, f_pos = 0, f_vnode = 40\<rparr>"
    and d: "do_dup2 sample_cfg 0 1 dup_state
                = Some (Inr 1,
                    st1\<lparr>files := (files st1)(30 \<mapsto> fl1\<lparr>f_refcount := Suc (f_refcount fl1)\<rparr>),
                        procs := (procs st1)
                          (curproc dup_state \<mapsto> dup_proc\<lparr>p_files := (p_files dup_proc)(nat 1 \<mapsto> 30)\<rparr>)\<rparr>)"
    by (auto simp add: dup_proc_def)
  from c closed have st1: "st1 = slab_obj_free (dup_state\<lparr>procs := (procs dup_state)
                 (10 \<mapsto> dup_proc\<lparr>p_files := (p_files dup_proc)(1 := None)\<rparr>),
               files := (files dup_state)(31 := None)\<rparr>)"
    by simp
  have "\<exists>st'. do_dup2 sample_cfg 0 1 dup_state = Some (Inr 1, st')
         \<and> map_option (\<lambda>p. (p_files p 0, p_files p 1)) (procs st' 10) = Some (Some 30, Some 30)
         \<and> files st' 30 = Some \<lparr>f_refcount = 2, f_mode = 1, f_pos = 0, f_vnode = 40\<rparr>
         \<and> files st' 31 = None"
    unfolding d f1 st1
    by (simp add: slab_obj_free_def dup_state_def dup_proc_def sample_state_def)
  with cur src fl tgt same show ?thesis
    by blast
qed

section \<open>Scheduler\<close>





































section \<open>Waiting for a child\<close>
















































lemma fold_remove1_self: "fold remove1 xs (xs @ ys) = ys"
  by (induction xs) simp_all













end
